theory Spec2Isabelle
  imports Main "HOL-Library.Word" "HOL-Library.AList"
begin

section \<open>Errors\<close>

text \<open>
  Go's \<open>error\<close> values that the functions of \<open>util.go\<close> can return. A nil error is
  \<open>None\<close> of type \<open>error option\<close>; a function returning \<open>(T, error)\<close> returns
  \<open>error + T\<close>. \<open>PathError op path e\<close> is the \<open>*os.PathError\<close> of a failed
  file operation, \<open>ErrorString msg\<close> is \<open>errors.New(msg)\<close>, an error of a library,
  and \<open>Errorf msg e\<close> is \<open>fmt.Errorf(msg + ": %v", e)\<close>.
\<close>

datatype errno = ENOENT | ENOTDIR | EACCES | EEXIST | EIO

datatype error =
    ErrNoFilename
  | ContextCanceled
  | Errno errno
  | PathError string string errno
  | ErrorString string
  | Errorf string error

section \<open>The string functions of the Go library that \<open>normalizeFilename\<close> calls\<close>

text \<open>
  A Go string is a sequence of bytes, here a \<open>char list\<close>.
  \<open>strings.HasSuffix(s, suffix)\<close> is
  \<open>len(s) >= len(suffix) && s[len(s)-len(suffix):] == suffix\<close>, and
  \<open>strings.Contains(s, substr)\<close> holds when \<open>substr\<close> starts at some index of \<open>s\<close>.
\<close>

definition HasPrefix :: "string \<Rightarrow> string \<Rightarrow> bool" where
  "HasPrefix s pre \<longleftrightarrow> length s \<ge> length pre \<and> take (length pre) s = pre"

definition HasSuffix :: "string \<Rightarrow> string \<Rightarrow> bool" where
  "HasSuffix s suf \<longleftrightarrow> length s \<ge> length suf \<and> drop (length s - length suf) s = suf"

fun Contains :: "string \<Rightarrow> string \<Rightarrow> bool" where
  "Contains [] substr = (substr = [])"
| "Contains (c # cs) substr = (HasPrefix (c # cs) substr \<or> Contains cs substr)"

subsection \<open>\<open>path.Clean\<close>\<close>

text \<open>
  \<open>path.Clean\<close> writes into a buffer \<open>out\<close> of which the first \<open>out.w\<close> bytes count;
  the model keeps exactly these bytes, so \<open>out.w\<close> is \<open>length out\<close>. The remaining
  input \<open>path[r:]\<close> is the argument \<open>p\<close>, so \<open>path[r+k]\<close> is \<open>p ! k\<close> and
  \<open>r+k == n\<close> is \<open>length p = k\<close>.

  The \<open>..\<close> case backs up over the last element:
  \<^verbatim>\<open>out.w--; for out.w > dotdot && out.index(out.w) != '/' { out.w-- }\<close>
\<close>

function backtrack :: "nat \<Rightarrow> string \<Rightarrow> nat \<Rightarrow> nat" where
  "backtrack dotdot buf w =
     (if w > dotdot \<and> buf ! w \<noteq> CHR ''/'' then backtrack dotdot buf (w - 1) else w)"
  by pat_completeness auto
termination
  by (relation "measure (\<lambda>(dotdot, buf, w). w)") auto

declare backtrack.simps [simp del]

function clean_loop :: "bool \<Rightarrow> nat \<Rightarrow> string \<Rightarrow> string \<Rightarrow> string" where
  "clean_loop rooted dotdot out p =
     (if p = [] then out
      else if p ! 0 = CHR ''/'' then
        \<comment> \<open>empty path element\<close>
        clean_loop rooted dotdot out (drop 1 p)
      else if p ! 0 = CHR ''.'' \<and> (length p = 1 \<or> p ! 1 = CHR ''/'') then
        \<comment> \<open>. element\<close>
        clean_loop rooted dotdot out (drop 1 p)
      else if p ! 0 = CHR ''.'' \<and> p ! 1 = CHR ''.'' \<and> (length p = 2 \<or> p ! 2 = CHR ''/'') then
        \<comment> \<open>.. element: remove to last /\<close>
        (if length out > dotdot then
           clean_loop rooted dotdot (take (backtrack dotdot out (length out - 1)) out) (drop 2 p)
         else if \<not> rooted then
           clean_loop rooted (length ((if length out > 0 then out @ ''/'' else out) @ ''..''))
             ((if length out > 0 then out @ ''/'' else out) @ ''..'') (drop 2 p)
         else clean_loop rooted dotdot out (drop 2 p))
      else
        \<comment> \<open>real path element: add slash if needed, copy element\<close>
        clean_loop rooted dotdot
          ((if rooted \<and> length out \<noteq> 1 \<or> \<not> rooted \<and> length out \<noteq> 0 then out @ ''/'' else out)
             @ takeWhile (\<lambda>c. c \<noteq> CHR ''/'') p)
          (dropWhile (\<lambda>c. c \<noteq> CHR ''/'') p))"
  by pat_completeness auto
termination
  by (relation "measure (\<lambda>(rooted, dotdot, out, p). length p)")
     (auto simp: neq_Nil_conv le_imp_less_Suc length_dropWhile_le)

declare clean_loop.simps [simp del]

definition path_Clean :: "string \<Rightarrow> string" where
  "path_Clean path =
     (if path = [] then ''.''
      else let rooted = (path ! 0 = CHR ''/'');
               out = clean_loop rooted (if rooted then 1 else 0) (if rooted then ''/'' else [])
                       (drop (if rooted then 1 else 0) path)
           in if length out = 0 then ''.'' else out)"

subsection \<open>\<open>filepath.Base\<close> and \<open>filepath.Dir\<close>\<close>

text \<open>
  \<open>path/filepath\<close> depends on the operating system. The model is the one of the Unix
  builds: \<open>os.IsPathSeparator(c)\<close> is \<open>c == '/'\<close>, \<open>filepath.Separator\<close> is \<open>'/'\<close>,
  \<open>VolumeName\<close> is always empty and \<open>filepath.Clean\<close> is the algorithm of
  \<open>path.Clean\<close>.

  \<^verbatim>\<open>for len(path) > 0 && os.IsPathSeparator(path[len(path)-1]) { path = path[0 : len(path)-1] }\<close>
\<close>

function stripTrailingSlashes :: "string \<Rightarrow> string" where
  "stripTrailingSlashes path =
     (if length path > 0 \<and> path ! (length path - 1) = CHR ''/''
      then stripTrailingSlashes (take (length path - 1) path) else path)"
  by pat_completeness auto
termination
  by (relation "measure length") auto

declare stripTrailingSlashes.simps [simp del]

text \<open>
  \<^verbatim>\<open>i := len(path) - 1; for i >= 0 && !os.IsPathSeparator(path[i]) { i-- }\<close>
  The index \<open>i\<close> can reach \<open>-1\<close>; \<open>lastSeparator path k\<close> runs the loop from
  \<open>i = k - 1\<close> and returns \<open>i + 1\<close>.
\<close>

fun lastSeparator :: "string \<Rightarrow> nat \<Rightarrow> nat" where
  "lastSeparator path 0 = 0"
| "lastSeparator path (Suc i) =
     (if path ! i \<noteq> CHR ''/'' then lastSeparator path i else Suc i)"

definition filepath_Base :: "string \<Rightarrow> string" where
  "filepath_Base path =
     (if path = [] then ''.''
      else let path1 = stripTrailingSlashes path;
               path2 = drop (lastSeparator path1 (length path1)) path1
           in if path2 = [] then ''/'' else path2)"


section \<open>\<open>normalizeFilename\<close>\<close>

text \<open>
  \<open>normalizeFilename_with\<close> is the body of \<open>normalizeFilename\<close> with the two
  library calls of its second half as parameters; \<open>normalizeFilename\<close> is the function
  of the source.
\<close>

definition normalizeFilename_with ::
  "(string \<Rightarrow> string) \<Rightarrow> (string \<Rightarrow> string) \<Rightarrow> string \<Rightarrow> error + string" where
  "normalizeFilename_with clean base filename =
     (if filename = [] \<or> HasSuffix filename ''/'' \<or> Contains filename [CHR 0x00]
      then Inl ErrNoFilename
      else let filename' = base (clean (''/'' @ filename))
           in if filename' = [] \<or> filename' = ''.'' \<or> filename' = ''/''
              then Inl ErrNoFilename
              else Inr filename')"

definition normalizeFilename :: "string \<Rightarrow> error + string" where
  "normalizeFilename = normalizeFilename_with path_Clean filepath_Base"

section \<open>HTTP responses and \<open>guessFilename\<close>\<close>

text \<open>
  Of \<open>http.Response\<close> the functions read the header map and the URL of the request
  that the response answers; of \<open>url.URL\<close> the path, to which the model adds the
  field \<open>RawQuery\<close>, where the library keeps what follows the \<open>?\<close> of a URL.
  \<open>resp.Request\<close> is a pointer that the HTTP client always sets; the model has no nil
  request.

  \<open>http.Header\<close> maps a canonical key to the list of its values, and \<open>Get\<close>
  returns the first value, or the empty string when there is none. The two keys of
  \<open>util.go\<close> are canonical as they are written. Reading a Go map at an absent key
  gives the zero value, here the empty string.
\<close>

record url =
  Path :: string
  RawQuery :: string

record request =
  URL :: url

record response =
  Header :: "string \<rightharpoonup> string list"
  Request :: request

definition Header_Get :: "(string \<rightharpoonup> string list) \<Rightarrow> string \<Rightarrow> string" where
  "Header_Get h key = (case h key of None \<Rightarrow> [] | Some [] \<Rightarrow> [] | Some (v # vs) \<Rightarrow> v)"

definition index :: "(string \<rightharpoonup> string) \<Rightarrow> string \<Rightarrow> string" where
  "index m key = (case m key of None \<Rightarrow> [] | Some v \<Rightarrow> v)"

text \<open>
  \<open>mime.ParseMediaType\<close> is a parameter of the model: a function from the header value
  to an error or to the media type and its parameters.
\<close>

type_synonym media_type_parser = "string \<Rightarrow> error + string \<times> (string \<rightharpoonup> string)"

definition guessFilename :: "media_type_parser \<Rightarrow> response \<Rightarrow> error + string" where
  "guessFilename mime_ParseMediaType resp =
     (let filename = Path (URL (Request resp));
          cd = Header_Get (Header resp) ''Content-Disposition''
      in if cd \<noteq> [] then
           (case mime_ParseMediaType cd of
              Inr (mediatype, params) \<Rightarrow>
                if index params ''filename'' \<noteq> [] then
                  (case normalizeFilename (index params ''filename'') of
                     Inr hFilename \<Rightarrow> Inr hFilename
                   | Inl err \<Rightarrow> normalizeFilename filename)
                else normalizeFilename filename
            | Inl err \<Rightarrow> normalizeFilename filename)
         else normalizeFilename filename)"

text \<open>
  How the library's \<open>url.Parse\<close> fills the two fields, on the URLs that are an
  absolute path with an optional query: no scheme, no authority (\<open>//\<close>), no fragment,
  no percent escape and no control byte. There it cuts the string at the first \<open>?\<close>.
  On every other string the model says nothing (\<open>None\<close>).
\<close>

definition isCTL :: "char \<Rightarrow> bool" where
  "isCTL c \<longleftrightarrow> (of_char c :: nat) < 0x20 \<or> (of_char c :: nat) = 0x7F"

definition url_Parse :: "string \<Rightarrow> url option" where
  "url_Parse rawURL =
     (if HasPrefix rawURL ''/'' \<and> \<not> HasPrefix rawURL ''//''
         \<and> \<not> list_ex (\<lambda>c. c = CHR ''%'' \<or> c = CHR ''#'' \<or> isCTL c) rawURL
      then Some \<lparr>Path = takeWhile (\<lambda>c. c \<noteq> CHR ''?'') rawURL,
                 RawQuery = drop 1 (dropWhile (\<lambda>c. c \<noteq> CHR ''?'') rawURL)\<rparr>
      else None)"

text \<open>
  A parser for the examples: it knows two header values and rejects every other one.
\<close>

definition stubParser :: media_type_parser where
  "stubParser v = (if v = ''attachment; filename=report.pdf''
     then Inr (''attachment'', [''filename'' \<mapsto> ''report.pdf''])
     else if v = ''attachment; filename=dir/''
     then Inr (''attachment'', [''filename'' \<mapsto> ''dir/''])
     else Inl (ErrorString ''mime: no media type''))"

section \<open>Files, hashes and \<open>checksum\<close>\<close>

text \<open>
  A Go slice of bytes is nil (\<open>None\<close>) or holds its bytes; \<open>append(s, xs...)\<close> of a
  nil slice and no bytes is nil again.
\<close>

type_synonym byte = "8 word"

definition go_append :: "byte list option \<Rightarrow> byte list \<Rightarrow> byte list option" where
  "go_append s xs =
     (case s of None \<Rightarrow> (if xs = [] then None else Some xs) | Some ys \<Rightarrow> Some (ys @ xs))"

text \<open>
  A \<open>hash.Hash\<close> is its algorithm, \<open>digest\<close>, and the bytes written to it so far.
  \<open>Write\<close> adds bytes and never fails; \<open>Sum(b)\<close> appends the digest of the bytes
  written to \<open>b\<close>.
\<close>

record hash =
  digest :: "byte list \<Rightarrow> byte list"
  written :: "byte list"

definition hash_Write :: "hash \<Rightarrow> byte list \<Rightarrow> hash" where
  "hash_Write h bs = h\<lparr>written := written h @ bs\<rparr>"

definition hash_Sum :: "hash \<Rightarrow> byte list option \<Rightarrow> byte list option" where
  "hash_Sum h b = go_append b (digest h (written h))"

text \<open>
  An open file is what its successive \<open>Read\<close> calls return, a chunk of bytes or an
  error, with end of file after the last of them, and what its \<open>Close\<close> returns.
  \<open>os.Open\<close> is a parameter of the model: a function from the name to an error or an
  open file. A context is never done (\<open>Background\<close>) or is found done, with its error,
  from its \<open>n\<close>-th poll on.
\<close>

datatype read_result = Data "byte list" | ReadError error

record os_File =
  reads :: "read_result list"
  close_result :: "error option"

datatype Context = Background | DoneAt nat error

fun ctx_Err :: "Context \<Rightarrow> nat \<Rightarrow> error option" where
  "ctx_Err Background k = None"
| "ctx_Err (DoneAt n e) k = (if n \<le> k then Some e else None)"

text \<open>
  Modelled from the spec: \<open>newTransfer\<close> and \<open>transfer.copy\<close>, which are in a file of
  the repository that is not among the sources. The spec (4.5, 5 and the glossary): the
  streaming copy is a chunked read-then-write loop that polls the cancellation signal
  between the chunks; a read error or a cancellation aborts it and surfaces the
  underlying error; otherwise every byte of the file goes through the update function of
  the hash. \<open>copy ctx k rs h\<close> is the loop at its \<open>k\<close>-th poll, with the reads \<open>rs\<close> to
  come; it returns the hash and the error. (\<open>checksum\<close> drops the count of bytes that
  \<open>copy\<close> returns as well.)
\<close>

fun copy :: "Context \<Rightarrow> nat \<Rightarrow> read_result list \<Rightarrow> hash \<Rightarrow> hash \<times> error option" where
  "copy ctx k [] h =
     (case ctx_Err ctx k of Some e \<Rightarrow> (h, Some e) | None \<Rightarrow> (h, None))"
| "copy ctx k (r # rs) h =
     (case ctx_Err ctx k of
        Some e \<Rightarrow> (h, Some e)
      | None \<Rightarrow>
          (case r of
             Data bs \<Rightarrow> copy ctx (Suc k) rs (hash_Write h bs)
           | ReadError e \<Rightarrow> (h, Some e)))"

text \<open>
  \<open>checksum\<close> has the named results \<open>b\<close> and \<open>err\<close>. \<open>checksum_body\<close> is the body
  from the creation of the transfer to its \<open>return\<close>, which is reached with the open
  file \<open>f\<close>; \<open>checksum_deferred\<close> is the deferred function, which runs after the
  \<open>return\<close> and assigns \<open>err = f.Close()\<close>. The first \<open>return\<close>, on a failed
  \<open>os.Open\<close>, comes before the \<open>defer\<close> statement.
\<close>

definition checksum_body :: "Context \<Rightarrow> os_File \<Rightarrow> hash \<Rightarrow> byte list option \<times> error option" where
  "checksum_body ctx f h =
     (case copy ctx 0 (reads f) h of
        (h', Some err) \<Rightarrow> (None, Some err)
      | (h', None) \<Rightarrow> (hash_Sum h' None, None))"

definition checksum_deferred :: "os_File \<Rightarrow> byte list option \<times> error option \<Rightarrow> byte list option \<times> error option" where
  "checksum_deferred f r = (case r of (b, err) \<Rightarrow> (b, close_result f))"

definition checksum ::
  "(string \<Rightarrow> error + os_File) \<Rightarrow> Context \<Rightarrow> string \<Rightarrow> hash \<Rightarrow> byte list option \<times> error option" where
  "checksum os_Open ctx filename h =
     (case os_Open filename of
        Inl err \<Rightarrow> (None, Some err)
      | Inr f \<Rightarrow> checksum_deferred f (checksum_body ctx f h))"

text \<open>A hash for the examples: its digest is the sum of the bytes, in one byte.\<close>

definition sum8 :: hash where
  "sum8 = \<lparr>digest = (\<lambda>bs. [sum_list bs]), written = []\<rparr>"

section \<open>The file system, \<open>setLastModified\<close> and \<open>mkdirp\<close>\<close>































section \<open>Notions used in the statements\<close>








section \<open>Properties of the path functions\<close>

subsection \<open>One step of \<open>path.Clean\<close> on each kind of element\<close>

lemma HasSuffix_slash: "HasSuffix s ''/'' \<longleftrightarrow> s \<noteq> [] \<and> last s = CHR ''/''"
  by (cases s rule: rev_cases) (auto simp: HasSuffix_def)

lemma Contains_single: "Contains s [c] \<longleftrightarrow> c \<in> set s"
  by (induction s) (auto simp: HasPrefix_def)








subsection \<open>Rooted paths as lists of elements\<close>









subsection \<open>\<open>path.Clean\<close> of a rooted path, \<open>filepath.Base\<close> of the result\<close>
















section \<open>The claims about \<open>normalizeFilename\<close>\<close>



text \<open>
  Claim C4. \<open>normalizeFilename\<close> returns \<open>ErrNoFilename\<close> on the empty string, on
  every string that ends in a slash and on every string with a null byte, among them
  \<open>""\<close>, \<open>"a/"\<close> and \<open>"a\x00b"\<close>. The rejection comes before the normalisation:
  it is the same whatever \<open>path.Clean\<close> and \<open>filepath.Base\<close> would return.
\<close>

theorem normalizeFilename_rejects:
  "(filename = [] \<or> (filename \<noteq> [] \<and> last filename = CHR ''/'') \<or> CHR 0x00 \<in> set filename \<longrightarrow>
      normalizeFilename filename = Inl ErrNoFilename
      \<and> normalizeFilename_with clean base filename = Inl ErrNoFilename)
   \<and> normalizeFilename '''' = Inl ErrNoFilename
   \<and> normalizeFilename ''a/'' = Inl ErrNoFilename
   \<and> normalizeFilename [CHR ''a'', CHR 0x00, CHR ''b''] = Inl ErrNoFilename"
proof -
  have rej: "normalizeFilename_with c b f = Inl ErrNoFilename"
    if "f = [] \<or> (f \<noteq> [] \<and> last f = CHR ''/'') \<or> CHR 0x00 \<in> set f" for c b f
    using that by (auto simp: normalizeFilename_with_def HasSuffix_slash Contains_single)
  have 1: "normalizeFilename '''' = Inl ErrNoFilename"
    unfolding normalizeFilename_def by (rule rej) simp
  have 2: "normalizeFilename ''a/'' = Inl ErrNoFilename"
    unfolding normalizeFilename_def by (rule rej) simp
  have 3: "normalizeFilename [CHR ''a'', CHR 0x00, CHR ''b''] = Inl ErrNoFilename"
    unfolding normalizeFilename_def by (rule rej) simp
  from rej 1 2 3 show ?thesis unfolding normalizeFilename_def by blast
qed

theorem normalizeFilename_rejects_witness:
  "(''dir/'' \<noteq> [] \<and> last ''dir/'' = CHR ''/'')
   \<and> normalizeFilename ''dir/'' = Inl ErrNoFilename
   \<and> normalizeFilename_with (\<lambda>p. ''/etc/passwd'') (\<lambda>p. ''passwd'') ''dir/'' = Inl ErrNoFilename"
proof -
  have h: "''dir/'' \<noteq> [] \<and> last ''dir/'' = CHR ''/''" by simp
  from normalizeFilename_rejects [of "''dir/''" "\<lambda>p. ''/etc/passwd''" "\<lambda>p. ''passwd''"] h
  show ?thesis by blast
qed





section \<open>The claims about \<open>guessFilename\<close>\<close>

lemma normalizeFilename_error: "normalizeFilename s = Inl e \<Longrightarrow> e = ErrNoFilename"
  by (auto simp: normalizeFilename_def normalizeFilename_with_def Let_def split: if_splits)

text \<open>
  Claim C3. With \<open>cd\<close> the value of the Content-Disposition header: when \<open>cd\<close> is
  present, parses as a media type and has a non-empty \<open>filename\<close> parameter that
  \<open>normalizeFilename\<close> accepts, \<open>guessFilename\<close> returns that name whatever the URL is.
  When the header is absent, does not parse, has no \<open>filename\<close> or one that
  \<open>normalizeFilename\<close> rejects, \<open>guessFilename\<close> returns what \<open>normalizeFilename\<close>
  returns on the path of the request URL, and \<open>ErrNoFilename\<close> when that fails too.
\<close>

theorem guessFilename_prefers_header:
  fixes pmt :: media_type_parser
  assumes cd_def: "cd = Header_Get h ''Content-Disposition''"
  shows
  "(cd \<noteq> [] \<and> pmt cd = Inr (mt, params) \<and> index params ''filename'' \<noteq> []
      \<and> normalizeFilename (index params ''filename'') = Inr f \<longrightarrow>
      (\<forall>u. guessFilename pmt \<lparr>Header = h, Request = \<lparr>URL = u\<rparr>\<rparr> = Inr f))
   \<and> (cd = [] \<or> (\<exists>e. pmt cd = Inl e)
        \<or> (\<exists>mt' params'. pmt cd = Inr (mt', params') \<and>
              (index params' ''filename'' = [] \<or>
               (\<exists>e. normalizeFilename (index params' ''filename'') = Inl e))) \<longrightarrow>
       guessFilename pmt \<lparr>Header = h, Request = \<lparr>URL = u\<rparr>\<rparr> = normalizeFilename (Path u)
       \<and> ((\<exists>e. normalizeFilename (Path u) = Inl e) \<longrightarrow>
            guessFilename pmt \<lparr>Header = h, Request = \<lparr>URL = u\<rparr>\<rparr> = Inl ErrNoFilename))"
proof (intro conjI impI)
  assume "cd \<noteq> [] \<and> pmt cd = Inr (mt, params) \<and> index params ''filename'' \<noteq> []
      \<and> normalizeFilename (index params ''filename'') = Inr f"
  then show "\<forall>u. guessFilename pmt \<lparr>Header = h, Request = \<lparr>URL = u\<rparr>\<rparr> = Inr f"
    by (simp add: guessFilename_def cd_def)
next
  assume a: "cd = [] \<or> (\<exists>e. pmt cd = Inl e)
        \<or> (\<exists>mt' params'. pmt cd = Inr (mt', params') \<and>
              (index params' ''filename'' = [] \<or>
               (\<exists>e. normalizeFilename (index params' ''filename'') = Inl e)))"
  then show g: "guessFilename pmt \<lparr>Header = h, Request = \<lparr>URL = u\<rparr>\<rparr> = normalizeFilename (Path u)"
    by (auto simp: guessFilename_def cd_def Let_def)
  assume "\<exists>e. normalizeFilename (Path u) = Inl e"
  then show "guessFilename pmt \<lparr>Header = h, Request = \<lparr>URL = u\<rparr>\<rparr> = Inl ErrNoFilename"
    using g normalizeFilename_error by auto
qed

theorem guessFilename_prefers_header_witness:
  "guessFilename stubParser
     \<lparr>Header = [''Content-Disposition'' \<mapsto> [''attachment; filename=report.pdf'']],
      Request = \<lparr>URL = \<lparr>Path = ''/download/1234'', RawQuery = []\<rparr>\<rparr>\<rparr> = Inr ''report.pdf''
   \<and> guessFilename stubParser
     \<lparr>Header = [''Content-Disposition'' \<mapsto> [''attachment; filename=dir/'']],
      Request = \<lparr>URL = \<lparr>Path = ''/files/data.csv'', RawQuery = []\<rparr>\<rparr>\<rparr> = Inr ''data.csv''
   \<and> guessFilename stubParser
     \<lparr>Header = [''Content-Disposition'' \<mapsto> [''inline'']],
      Request = \<lparr>URL = \<lparr>Path = ''/files/'', RawQuery = []\<rparr>\<rparr>\<rparr> = Inl ErrNoFilename"
proof -
  have n1: "normalizeFilename ''report.pdf'' = Inr ''report.pdf''" by code_simp
  have n2: "normalizeFilename ''dir/'' = Inl ErrNoFilename" by code_simp
  have n3: "normalizeFilename ''/files/data.csv'' = Inr ''data.csv''" by code_simp
  have n4: "normalizeFilename ''/files/'' = Inl ErrNoFilename" by code_simp
  have 1: "guessFilename stubParser
     \<lparr>Header = [''Content-Disposition'' \<mapsto> [''attachment; filename=report.pdf'']],
      Request = \<lparr>URL = \<lparr>Path = ''/download/1234'', RawQuery = []\<rparr>\<rparr>\<rparr> = Inr ''report.pdf''"
    using guessFilename_prefers_header [of "''attachment; filename=report.pdf''"
        "[''Content-Disposition'' \<mapsto> [''attachment; filename=report.pdf'']]" stubParser
        "''attachment''" "[''filename'' \<mapsto> ''report.pdf'']" "''report.pdf''"] n1
    by (simp add: Header_Get_def index_def stubParser_def)
  have 2: "guessFilename stubParser
     \<lparr>Header = [''Content-Disposition'' \<mapsto> [''attachment; filename=dir/'']],
      Request = \<lparr>URL = \<lparr>Path = ''/files/data.csv'', RawQuery = []\<rparr>\<rparr>\<rparr> = Inr ''data.csv''"
    using guessFilename_prefers_header [of "''attachment; filename=dir/''"
        "[''Content-Disposition'' \<mapsto> [''attachment; filename=dir/'']]" stubParser
        _ _ _ "\<lparr>Path = ''/files/data.csv'', RawQuery = []\<rparr>"] n2 n3
    by (simp add: Header_Get_def index_def stubParser_def)
  have 3: "guessFilename stubParser
     \<lparr>Header = [''Content-Disposition'' \<mapsto> [''inline'']],
      Request = \<lparr>URL = \<lparr>Path = ''/files/'', RawQuery = []\<rparr>\<rparr>\<rparr> = Inl ErrNoFilename"
    using guessFilename_prefers_header [of "''inline''"
        "[''Content-Disposition'' \<mapsto> [''inline'']]" stubParser
        _ _ _ "\<lparr>Path = ''/files/'', RawQuery = []\<rparr>"] n4
    by (simp add: Header_Get_def index_def stubParser_def)
  from 1 2 3 show ?thesis by blast
qed

text \<open>
  Claim C7. A response without Content-Disposition header to a request for
  \<open>/files/data.csv?x=1\<close>: the URL has the path \<open>/files/data.csv\<close> and the query
  \<open>x=1\<close>, and \<open>guessFilename\<close> returns \<open>data.csv\<close>, without the query.
\<close>

theorem guessFilename_query:
  "url_Parse ''/files/data.csv?x=1'' = Some \<lparr>Path = ''/files/data.csv'', RawQuery = ''x=1''\<rparr>
   \<and> guessFilename pmt
        \<lparr>Header = Map.empty, Request = \<lparr>URL = \<lparr>Path = ''/files/data.csv'', RawQuery = ''x=1''\<rparr>\<rparr>\<rparr>
       = Inr ''data.csv''"
proof
  show "url_Parse ''/files/data.csv?x=1'' = Some \<lparr>Path = ''/files/data.csv'', RawQuery = ''x=1''\<rparr>"
    by code_simp
  have "normalizeFilename ''/files/data.csv'' = Inr ''data.csv''" by code_simp
  then show "guessFilename pmt
        \<lparr>Header = Map.empty, Request = \<lparr>URL = \<lparr>Path = ''/files/data.csv'', RawQuery = ''x=1''\<rparr>\<rparr>\<rparr>
       = Inr ''data.csv''"
    by (simp add: guessFilename_def Header_Get_def)
qed

text \<open>
  The query is absent from the name because it is absent from \<open>URL.Path\<close>;
  \<open>guessFilename\<close> removes nothing itself. A question mark inside the path (an escaped
  \<open>%3F\<close> of the URL) stays in the name.
\<close>

lemma guessFilename_literal_question_mark:
  "guessFilename pmt
        \<lparr>Header = Map.empty, Request = \<lparr>URL = \<lparr>Path = ''/files/data.csv?x=1'', RawQuery = []\<rparr>\<rparr>\<rparr>
       = Inr ''data.csv?x=1''"
proof -
  have "normalizeFilename ''/files/data.csv?x=1'' = Inr ''data.csv?x=1''" by code_simp
  then show ?thesis by (simp add: guessFilename_def Header_Get_def)
qed

section \<open>The claims about \<open>checksum\<close>\<close>

text \<open>
  When the copy fails on an open file, \<open>checksum\<close> returns no digest, and as its error
  what \<open>Close\<close> returns, not the error of the copy.
\<close>

lemma checksum_copy_failed:
  "os_Open filename = Inr f \<Longrightarrow> copy ctx 0 (reads f) h = (h', Some e) \<Longrightarrow>
   checksum os_Open ctx filename h = (None, close_result f)"
  by (simp add: checksum_def checksum_body_def checksum_deferred_def)

text \<open>
  Claim C1 (an error of the copy is returned to the caller, with no digest). The code at
  two inputs: a file whose second read fails, and a context cancelled after the first
  chunk. In both the file closes without error, and \<open>checksum\<close> returns neither a
  digest nor an error: the deferred function has replaced the error of the copy by the
  nil of \<open>Close\<close>.
\<close>

theorem checksum_loses_copy_error:
  "checksum (\<lambda>name. Inr \<lparr>reads = [Data [1, 2], ReadError (Errno EIO)], close_result = None\<rparr>)
     Background ''file.bin'' sum8 = (None, None)
   \<and> checksum (\<lambda>name. Inr \<lparr>reads = [Data [1, 2], Data [3]], close_result = None\<rparr>)
     (DoneAt 1 ContextCanceled) ''file.bin'' sum8 = (None, None)"
  by (simp add: checksum_def checksum_body_def checksum_deferred_def sum8_def hash_Write_def)

text \<open>
  Claim C8. Once \<open>os.Open\<close> has succeeded, the error that \<open>checksum\<close> returns is the
  result of \<open>Close\<close>. When the copy succeeds and \<open>Close\<close> fails, \<open>checksum\<close>
  returns \<open>h.Sum(nil)\<close> and the error of \<open>Close\<close>; \<open>h.Sum(nil)\<close> is the digest, a
  non-nil slice for a hash whose digest has at least one byte.
\<close>

theorem checksum_returns_close_result:
  "(os_Open filename = Inr f \<longrightarrow> snd (checksum os_Open ctx filename h) = close_result f)
   \<and> (os_Open filename = Inr f \<and> copy ctx 0 (reads f) h = (h', None) \<and> close_result f = Some e \<longrightarrow>
        checksum os_Open ctx filename h = (hash_Sum h' None, Some e)
        \<and> (digest h' (written h') \<noteq> [] \<longrightarrow>
             checksum os_Open ctx filename h = (Some (digest h' (written h')), Some e)))"
  by (auto simp: checksum_def checksum_body_def checksum_deferred_def hash_Sum_def go_append_def
           split: prod.splits option.splits)

theorem checksum_returns_close_result_witness:
  "checksum (\<lambda>name. Inr \<lparr>reads = [Data [1, 2], Data [3]], close_result = Some (Errno EIO)\<rparr>)
     Background ''file.bin'' sum8 = (Some [6], Some (Errno EIO))
   \<and> snd (checksum (\<lambda>name. Inr \<lparr>reads = [ReadError (Errno EIO)], close_result = None\<rparr>)
     Background ''file.bin'' sum8) = None"
proof -
  let ?f = "\<lparr>reads = [Data [1, 2], Data [3]], close_result = Some (Errno EIO)\<rparr>"
  let ?h' = "\<lparr>digest = (\<lambda>bs. [sum_list bs]), written = [1, 2, 3 :: byte]\<rparr>"
  have c: "copy Background 0 (reads ?f) sum8 = (?h', None)"
    by (simp add: sum8_def hash_Write_def)
  from checksum_returns_close_result [of "\<lambda>name. Inr ?f" "''file.bin''" ?f Background sum8 ?h' "Errno EIO"] c
  have 1: "checksum (\<lambda>name. Inr ?f) Background ''file.bin'' sum8 = (Some [6], Some (Errno EIO))"
    by (simp add: hash_Sum_def go_append_def)
  let ?g = "\<lparr>reads = [ReadError (Errno EIO)], close_result = None\<rparr>"
  from checksum_returns_close_result [of "\<lambda>name. Inr ?g" "''file.bin''" ?g Background sum8]
  have 2: "snd (checksum (\<lambda>name. Inr ?g) Background ''file.bin'' sum8) = None"
    by simp
  from 1 2 show ?thesis by blast
qed

section \<open>Properties of the file system model\<close>























section \<open>The claims about \<open>setLastModified\<close> and \<open>mkdirp\<close>\<close>






end
